theory Spec2Isabelle
  imports Main "HOL-Library.Word" "HOL-Library.Monad_Syntax"
begin

unbundle bit_operations_syntax

section \<open>Data model\<close>

text \<open>
  The model follows \<^verbatim>\<open>src/wallet_legacy/WalletLegacySerializer.cpp\<close>.
  A \<^verbatim>\<open>std::string\<close> is a list of bytes; the fixed-width PODs of the crypto library
  (\<^verbatim>\<open>chacha8_iv\<close>, 8 bytes; \<^verbatim>\<open>chacha8_key\<close>, \<^verbatim>\<open>PublicKey\<close> and
  \<^verbatim>\<open>SecretKey\<close>, 32 bytes each) are words of that width.
\<close>

type_synonym byte = "8 word"
type_synonym bytes = "byte list"
type_synonym chacha8_iv = "64 word"
type_synonym chacha8_key = "256 word"
type_synonym PublicKey = "256 word"
type_synonym SecretKey = "256 word"

text \<open>
  Modelled from the spec: the constant \<^verbatim>\<open>NULL_SECRET_KEY\<close> is declared outside this
  file; the spec describes it as the all-zero sentinel of a watch-only wallet.
\<close>

definition NULL_SECRET_KEY :: SecretKey where
  "NULL_SECRET_KEY = 0"

record AccountPublicAddress =
  spendPublicKey :: PublicKey
  viewPublicKey :: PublicKey

record AccountKeys =
  address :: AccountPublicAddress
  spendSecretKey :: SecretKey
  viewSecretKey :: SecretKey

text \<open>
  The account object is used through its four accessors only
  (\<^verbatim>\<open>getAccountKeys\<close>, \<^verbatim>\<open>setAccountKeys\<close>, \<^verbatim>\<open>get_createtime\<close>,
  \<^verbatim>\<open>set_createtime\<close>): it is a record of the keys and the creation time.
\<close>

record AccountBase =
  m_keys :: AccountKeys
  m_creation_timestamp :: "64 word"

definition getAccountKeys :: "AccountBase \<Rightarrow> AccountKeys" where
  "getAccountKeys a = m_keys a"

definition setAccountKeys :: "AccountKeys \<Rightarrow> AccountBase \<Rightarrow> AccountBase" where
  "setAccountKeys k a = a\<lparr>m_keys := k\<rparr>"

definition get_createtime :: "AccountBase \<Rightarrow> 64 word" where
  "get_createtime a = m_creation_timestamp a"

definition set_createtime :: "64 word \<Rightarrow> AccountBase \<Rightarrow> AccountBase" where
  "set_createtime t a = a\<lparr>m_creation_timestamp := t\<rparr>"

text \<open>The on-disk key block, fields in the order they are written.\<close>

record KeysStorage =
  creationTimestamp :: "64 word"
  ks_spendPublicKey :: PublicKey
  ks_spendSecretKey :: SecretKey
  ks_viewPublicKey :: PublicKey
  ks_viewSecretKey :: SecretKey

text \<open>
  What a call can throw: \<^verbatim>\<open>std::runtime_error\<close>, raised by the binary serializer
  when a read fails, and \<^verbatim>\<open>std::system_error\<close> carrying a wallet error code. The
  only code this file constructs is \<^verbatim>\<open>WRONG_PASSWORD\<close>.
\<close>

datatype error_code = WRONG_PASSWORD

datatype exn = runtime_error | system_error error_code

datatype 'a result = Thrown exn | Returned 'a

section \<open>Collaborators\<close>

text \<open>
  The serializer, the crypto library and the transaction cache are not part of this file.
  They are parameters of the model, collected in one record.

  A \<open>field\<close> is the positional codec of one value type: \<open>emit\<close> is the output
  serializer's \<^verbatim>\<open>operator()(value, name)\<close>, giving the bytes appended to the stream;
  \<open>parse\<close> is the input serializer's, reading from the front of the remaining bytes and
  returning the value with the rest, or \<open>None\<close> where the read throws
  \<^verbatim>\<open>std::runtime_error\<close>.
\<close>

record 'a field =
  emit :: "string \<Rightarrow> 'a \<Rightarrow> bytes"
  parse :: "string \<Rightarrow> bytes \<Rightarrow> ('a \<times> bytes) option"

record 'h services =
  generate_chacha8_key :: "bytes \<Rightarrow> chacha8_key"
  chacha8_keystream :: "chacha8_key \<Rightarrow> chacha8_iv \<Rightarrow> nat \<Rightarrow> byte"
  secret_key_matches :: "SecretKey \<Rightarrow> PublicKey \<Rightarrow> bool"
  check_key :: "PublicKey \<Rightarrow> bool"
  beginObject_out :: "string \<Rightarrow> bytes"
  beginObject_in :: "string \<Rightarrow> bytes \<Rightarrow> bytes option"
  endObject_out :: "bytes"
  endObject_in :: "bytes \<Rightarrow> bytes option"
  uint32_field :: "32 word field"
  uint64_field :: "64 word field"
  bool_field :: "bool field"
  iv_field :: "chacha8_iv field"
  public_key_field :: "PublicKey field"
  secret_key_field :: "SecretKey field"
  string_field :: "bytes field"
  binary_field :: "bytes field"
  details_out :: "string \<Rightarrow> 'h \<Rightarrow> bytes"
  details_in :: "string \<Rightarrow> 'h \<Rightarrow> bytes \<Rightarrow> 'h \<times> bytes option"
  deserializeLegacyV1 :: "'h \<Rightarrow> bytes \<Rightarrow> 'h \<times> bytes option"

section \<open>Key derivation and cipher\<close>

text \<open>
  Modelled from the spec: \<^verbatim>\<open>Crypto::chacha8(data, length, key, iv, cipher)\<close> is
  declared outside this file. The spec describes it as a stream cipher: a byte stream
  that depends on key and IV is combined with the data, byte by byte, into an output of
  the same length. The keystream itself is the parameter \<open>chacha8_keystream\<close>; the
  result is written over the first \<open>length\<close> bytes of the output buffer.
\<close>

fun xor_stream :: "(nat \<Rightarrow> byte) \<Rightarrow> nat \<Rightarrow> bytes \<Rightarrow> bytes" where
  "xor_stream ks i [] = []"
| "xor_stream ks i (b # bs) = (b XOR ks i) # xor_stream ks (Suc i) bs"

definition chacha8 ::
  "'h services \<Rightarrow> bytes \<Rightarrow> nat \<Rightarrow> chacha8_key \<Rightarrow> chacha8_iv \<Rightarrow> bytes \<Rightarrow> bytes" where
  "chacha8 S data len key iv buf =
     xor_stream (chacha8_keystream S key iv) 0 (take len data) @ drop len buf"

text \<open>\<^verbatim>\<open>std::string::resize(n)\<close>: cut to \<open>n\<close> bytes, or pad with zero bytes.\<close>

definition resize :: "nat \<Rightarrow> bytes \<Rightarrow> bytes" where
  "resize n s = take n s @ replicate (n - length s) 0"

text \<open>
  \<^verbatim>\<open>encrypt\<close> (lines 72-83). The value drawn by \<^verbatim>\<open>Crypto::rand\<close> is the argument
  \<open>rnd\<close>; \<open>cipher\<close> is the output string as the caller passed it.
\<close>

definition encrypt ::
  "'h services \<Rightarrow> chacha8_iv \<Rightarrow> bytes \<Rightarrow> bytes \<Rightarrow> bytes \<Rightarrow> chacha8_iv \<times> bytes" where
  "encrypt S rnd plain password cipher =
     (let key = generate_chacha8_key S password;
          cipher1 = resize (length plain) cipher;
          iv = rnd;
          cipher2 = chacha8 S plain (length plain) key iv cipher1
      in (iv, cipher2))"

text \<open>\<^verbatim>\<open>decrypt\<close> (lines 135-143); \<open>plain\<close> is the output string as passed in.\<close>

definition decrypt ::
  "'h services \<Rightarrow> bytes \<Rightarrow> bytes \<Rightarrow> chacha8_iv \<Rightarrow> bytes \<Rightarrow> bytes" where
  "decrypt S cipher plain iv password =
     (let key = generate_chacha8_key S password;
          plain1 = resize (length cipher) plain
      in chacha8 S cipher (length cipher) key iv plain1)"

section \<open>The serializer object\<close>

text \<open>
  The object holds references to the caller's account and transaction cache; both are
  state that \<^verbatim>\<open>deserialize\<close> updates. The third member is the constant
  \<^verbatim>\<open>walletSerializationVersion\<close>, which the only constructor (lines 21-26) sets.
\<close>

record 'h WalletLegacySerializer =
  account :: AccountBase
  transactionsCache :: 'h

definition walletSerializationVersion :: "32 word" where
  "walletSerializationVersion = 1"

section \<open>The key block\<close>

text \<open>
  Modelled from the spec: \<^verbatim>\<open>KeysStorage::serialize(serializer, name)\<close> is declared
  outside this file. The spec gives the block as an object of five fields in fixed order:
  creationTimestamp (uint64), spendPublicKey, spendSecretKey, viewPublicKey,
  viewSecretKey (32 bytes each). One definition for each direction of the serializer.
\<close>

definition KeysStorage_serialize_out :: "'h services \<Rightarrow> string \<Rightarrow> KeysStorage \<Rightarrow> bytes" where
  "KeysStorage_serialize_out S name keys =
     beginObject_out S name
     @ emit (uint64_field S) ''creationTimestamp'' (creationTimestamp keys)
     @ emit (public_key_field S) ''spendPublicKey'' (ks_spendPublicKey keys)
     @ emit (secret_key_field S) ''spendSecretKey'' (ks_spendSecretKey keys)
     @ emit (public_key_field S) ''viewPublicKey'' (ks_viewPublicKey keys)
     @ emit (secret_key_field S) ''viewSecretKey'' (ks_viewSecretKey keys)
     @ endObject_out S"

definition KeysStorage_serialize_in ::
  "'h services \<Rightarrow> string \<Rightarrow> bytes \<Rightarrow> (KeysStorage \<times> bytes) option" where
  "KeysStorage_serialize_in S name s =
     do {
       s1 \<leftarrow> beginObject_in S name s;
       (t, s2) \<leftarrow> parse (uint64_field S) ''creationTimestamp'' s1;
       (spub, s3) \<leftarrow> parse (public_key_field S) ''spendPublicKey'' s2;
       (ssec, s4) \<leftarrow> parse (secret_key_field S) ''spendSecretKey'' s3;
       (vpub, s5) \<leftarrow> parse (public_key_field S) ''viewPublicKey'' s4;
       (vsec, s6) \<leftarrow> parse (secret_key_field S) ''viewSecretKey'' s5;
       s7 \<leftarrow> endObject_in S s6;
       Some (\<lparr>creationTimestamp = t, ks_spendPublicKey = spub, ks_spendSecretKey = ssec,
              ks_viewPublicKey = vpub, ks_viewSecretKey = vsec\<rparr>, s7)
     }"

section \<open>Writing\<close>

text \<open>\<^verbatim>\<open>saveKeys\<close> (lines 59-70): the bytes appended to the plain archive.\<close>

definition saveKeys :: "'h services \<Rightarrow> 'h WalletLegacySerializer \<Rightarrow> bytes" where
  "saveKeys S w =
     (let acc = getAccountKeys (account w);
          keys = \<lparr>creationTimestamp = get_createtime (account w),
                  ks_spendPublicKey = spendPublicKey (address acc),
                  ks_spendSecretKey = spendSecretKey acc,
                  ks_viewPublicKey = viewPublicKey (address acc),
                  ks_viewSecretKey = viewSecretKey acc\<rparr>
      in KeysStorage_serialize_out S ''keys'' keys)"

text \<open>
  \<^verbatim>\<open>serialize\<close> (lines 28-57): the bytes written to the output stream. \<open>rnd\<close> is
  the value that \<^verbatim>\<open>Crypto::rand\<close> draws inside \<^verbatim>\<open>encrypt\<close>.
\<close>

definition plainArchive ::
  "'h services \<Rightarrow> 'h WalletLegacySerializer \<Rightarrow> bool \<Rightarrow> bytes \<Rightarrow> bytes" where
  "plainArchive S w saveDetailed cache =
     saveKeys S w
     @ emit (bool_field S) ''has_details'' saveDetailed
     @ (if saveDetailed then details_out S ''details'' (transactionsCache w) else [])
     @ emit (binary_field S) ''cache'' cache"

definition serialize ::
  "'h services \<Rightarrow> chacha8_iv \<Rightarrow> 'h WalletLegacySerializer \<Rightarrow> bytes \<Rightarrow> bool \<Rightarrow> bytes \<Rightarrow> bytes" where
  "serialize S rnd w password saveDetailed cache =
     (let plain = plainArchive S w saveDetailed cache;
          (iv, cipher) = encrypt S rnd plain password [];
          version = walletSerializationVersion
      in beginObject_out S ''wallet''
         @ emit (uint32_field S) ''version'' version
         @ emit (iv_field S) ''iv'' iv
         @ emit (string_field S) ''data'' cipher
         @ endObject_out S)"

section \<open>Reading\<close>

text \<open>
  \<^verbatim>\<open>loadKeys\<close> (lines 145-162). The argument \<open>s\<close> is what the input serializer has
  left to read; the result is what it has left afterwards, with the account as the call
  leaves it. A \<^verbatim>\<open>std::runtime_error\<close> from the key block is caught and rethrown as
  \<^verbatim>\<open>WRONG_PASSWORD\<close>.
\<close>

definition loadKeys :: "'h services \<Rightarrow> bytes \<Rightarrow> AccountBase \<Rightarrow> bytes result \<times> AccountBase" where
  "loadKeys S s a =
     (case KeysStorage_serialize_in S ''keys'' s of
        None \<Rightarrow> (Thrown (system_error WRONG_PASSWORD), a)
      | Some (keys, s') \<Rightarrow>
          (let acc = \<lparr>address = \<lparr>spendPublicKey = ks_spendPublicKey keys,
                                  viewPublicKey = ks_viewPublicKey keys\<rparr>,
                      spendSecretKey = ks_spendSecretKey keys,
                      viewSecretKey = ks_viewSecretKey keys\<rparr>
           in (Returned s', set_createtime (creationTimestamp keys) (setAccountKeys acc a))))"

text \<open>
  Modelled from the spec: \<^verbatim>\<open>throwIfKeysMissmatch(sec, pub)\<close> is declared outside this
  file. By the spec it fails with WrongPassword when the public key does not correspond
  to the secret key; the correspondence itself is the parameter \<open>secret_key_matches\<close>.
\<close>

definition throwIfKeysMissmatch :: "'h services \<Rightarrow> SecretKey \<Rightarrow> PublicKey \<Rightarrow> unit result" where
  "throwIfKeysMissmatch S sec expected_pub =
     (if secret_key_matches S sec expected_pub then Returned ()
      else Thrown (system_error WRONG_PASSWORD))"

text \<open>
  \<^verbatim>\<open>deserialize\<close> (lines 86-133), in the four stretches it runs through: the envelope
  (lines 87-101), the key checks on the account that \<^verbatim>\<open>loadKeys\<close> has just set
  (lines 110-118), the details and the cache blob (lines 120-132).
\<close>

definition readEnvelope :: "'h services \<Rightarrow> bytes \<Rightarrow> (32 word \<times> chacha8_iv \<times> bytes) option" where
  "readEnvelope S stream =
     do {
       s1 \<leftarrow> beginObject_in S ''wallet'' stream;
       (version, s2) \<leftarrow> parse (uint32_field S) ''version'' s1;
       (iv, s3) \<leftarrow> parse (iv_field S) ''iv'' s2;
       (cipher, s4) \<leftarrow> parse (string_field S) ''data'' s3;
       s5 \<leftarrow> endObject_in S s4;
       Some (version, iv, cipher)
     }"

definition checkKeys :: "'h services \<Rightarrow> AccountBase \<Rightarrow> unit result" where
  "checkKeys S a =
     (case throwIfKeysMissmatch S (viewSecretKey (getAccountKeys a))
             (viewPublicKey (address (getAccountKeys a))) of
        Thrown e \<Rightarrow> Thrown e
      | Returned _ \<Rightarrow>
          if spendSecretKey (getAccountKeys a) \<noteq> NULL_SECRET_KEY
          then throwIfKeysMissmatch S (spendSecretKey (getAccountKeys a))
                 (spendPublicKey (address (getAccountKeys a)))
          else if \<not> check_key S (spendPublicKey (address (getAccountKeys a)))
          then Thrown (system_error WRONG_PASSWORD)
          else Returned ())"

text \<open>
  The details are decoded into the caller's transaction cache, which a failing decode may
  leave changed: both decoders return the cache as they leave it. The cache string is
  assigned by the last read, when that read succeeds.
\<close>

definition readDetails ::
  "'h services \<Rightarrow> 32 word \<Rightarrow> bool \<Rightarrow> 'h \<Rightarrow> bytes \<Rightarrow> 'h \<times> bytes option" where
  "readDetails S version detailsSaved tc s =
     (if detailsSaved
      then (if version = 1 then deserializeLegacyV1 S tc s
            else details_in S ''details'' tc s)
      else (tc, Some s))"

definition readTail ::
  "'h services \<Rightarrow> 32 word \<Rightarrow> bytes \<Rightarrow> 'h \<Rightarrow> bytes \<Rightarrow> unit result \<times> 'h \<times> bytes" where
  "readTail S version s tc cache =
     (case parse (bool_field S) ''has_details'' s of
        None \<Rightarrow> (Thrown runtime_error, tc, cache)
      | Some (detailsSaved, s1) \<Rightarrow>
          (case readDetails S version detailsSaved tc s1 of
             (tc1, None) \<Rightarrow> (Thrown runtime_error, tc1, cache)
           | (tc1, Some s2) \<Rightarrow>
               (case parse (binary_field S) ''cache'' s2 of
                  None \<Rightarrow> (Thrown runtime_error, tc1, cache)
                | Some (c, s3) \<Rightarrow> (Returned (), tc1, c))))"

definition deserialize ::
  "'h services \<Rightarrow> bytes \<Rightarrow> bytes \<Rightarrow> 'h WalletLegacySerializer \<Rightarrow> bytes \<Rightarrow>
   unit result \<times> 'h WalletLegacySerializer \<times> bytes" where
  "deserialize S stream password w cache =
     (case readEnvelope S stream of
        None \<Rightarrow> (Thrown runtime_error, w, cache)
      | Some (version, iv, cipher) \<Rightarrow>
          (let plain = decrypt S cipher [] iv password in
           case loadKeys S plain (account w) of
             (Thrown e, a) \<Rightarrow> (Thrown e, w\<lparr>account := a\<rparr>, cache)
           | (Returned s, a) \<Rightarrow>
               (case checkKeys S a of
                  Thrown e \<Rightarrow> (Thrown e, w\<lparr>account := a\<rparr>, cache)
                | Returned _ \<Rightarrow>
                    (case readTail S version s (transactionsCache w) cache of
                       (r, tc, c) \<Rightarrow> (r, \<lparr>account = a, transactionsCache = tc\<rparr>, c)))))"

section \<open>A small instance of the collaborators\<close>

text \<open>
  To run the functions above on concrete inputs, the parameters need values. This instance
  is a stand-in, not the production code: integers and PODs are little-endian bytes of
  fixed count, strings carry a base-128 length prefix, an object starts with one byte
  holding the length of its name, a public key matches a secret key when it is twice the
  secret key plus one, and the valid public keys are the odd ones. The transaction
  history is a byte string; its current layout is a length-prefixed string, its legacy
  layout has a four-byte count in front instead.
\<close>

fun demo_le_bytes :: "nat \<Rightarrow> nat \<Rightarrow> bytes" where
  "demo_le_bytes 0 n = []"
| "demo_le_bytes (Suc k) n = of_nat (n mod 256) # demo_le_bytes k (n div 256)"

fun demo_le_value :: "bytes \<Rightarrow> nat" where
  "demo_le_value [] = 0"
| "demo_le_value (b # bs) = unat b + 256 * demo_le_value bs"

definition demo_word_field :: "nat \<Rightarrow> 'a::len word field" where
  "demo_word_field k =
     \<lparr>emit = (\<lambda>name v. demo_le_bytes k (unat v)),
      parse = (\<lambda>name s. if length s < k then None
                         else Some (of_nat (demo_le_value (take k s)), drop k s))\<rparr>"

definition demo_bool_field :: "bool field" where
  "demo_bool_field =
     \<lparr>emit = (\<lambda>name v. [if v then 1 else 0]),
      parse = (\<lambda>name s. case s of [] \<Rightarrow> None | b # r \<Rightarrow> Some (b \<noteq> 0, r))\<rparr>"

fun demo_varint :: "nat \<Rightarrow> bytes" where
  "demo_varint n =
     (if n < 128 then [of_nat n] else of_nat (128 + n mod 128) # demo_varint (n div 128))"

fun demo_read_varint :: "bytes \<Rightarrow> (nat \<times> bytes) option" where
  "demo_read_varint [] = None"
| "demo_read_varint (b # r) =
     (if b < 128 then Some (unat b, r)
      else (case demo_read_varint r of
              None \<Rightarrow> None
            | Some (n, r') \<Rightarrow> Some (unat b - 128 + 128 * n, r')))"

definition demo_string_field :: "bytes field" where
  "demo_string_field =
     \<lparr>emit = (\<lambda>name v. demo_varint (length v) @ v),
      parse = (\<lambda>name s. case demo_read_varint s of
                           None \<Rightarrow> None
                         | Some (n, r) \<Rightarrow>
                             if length r < n then None else Some (take n r, drop n r))\<rparr>"

definition demo_beginObject_in :: "string \<Rightarrow> bytes \<Rightarrow> bytes option" where
  "demo_beginObject_in name s =
     (case s of [] \<Rightarrow> None
      | b # r \<Rightarrow> if b = of_nat (length name) then Some r else None)"

definition demo_details_in :: "bytes \<Rightarrow> bytes \<Rightarrow> bytes \<times> bytes option" where
  "demo_details_in tc s =
     (case parse demo_string_field ''details'' s of
        None \<Rightarrow> (tc, None)
      | Some (h, r) \<Rightarrow> (h, Some r))"

definition demo_deserializeLegacyV1 :: "bytes \<Rightarrow> bytes \<Rightarrow> bytes \<times> bytes option" where
  "demo_deserializeLegacyV1 tc s =
     (if length s < 4 then (tc, None)
      else (let n = demo_le_value (take 4 s); r = drop 4 s
            in if length r < n then (tc, None) else (take n r, Some (drop n r))))"

definition demo :: "bytes services" where
  "demo =
     \<lparr>generate_chacha8_key = (\<lambda>password. of_nat (demo_le_value password)),
      chacha8_keystream = (\<lambda>key iv i. ucast key + ucast iv + of_nat i),
      secret_key_matches = (\<lambda>sec pub. pub = 2 * sec + 1),
      check_key = (\<lambda>pub. bit pub 0),
      beginObject_out = (\<lambda>name. [of_nat (length name)]),
      beginObject_in = demo_beginObject_in,
      endObject_out = [],
      endObject_in = Some,
      uint32_field = demo_word_field 4,
      uint64_field = demo_word_field 8,
      bool_field = demo_bool_field,
      iv_field = demo_word_field 8,
      public_key_field = demo_word_field 32,
      secret_key_field = demo_word_field 32,
      string_field = demo_string_field,
      binary_field = demo_string_field,
      details_out = (\<lambda>name h. emit demo_string_field name h),
      details_in = (\<lambda>name. demo_details_in),
      deserializeLegacyV1 = demo_deserializeLegacyV1\<rparr>"

section \<open>What the round trip asks of the serializer\<close>

text \<open>
  The reader of a field gives back what its writer wrote, and leaves what follows.
\<close>

definition field_ok :: "'a field \<Rightarrow> bool" where
  "field_ok f \<longleftrightarrow> (\<forall>name v rest. parse f name (emit f name v @ rest) = Some (v, rest))"

definition serializer_ok :: "'h services \<Rightarrow> bool" where
  "serializer_ok S \<longleftrightarrow>
     (\<forall>name rest. beginObject_in S name (beginObject_out S name @ rest) = Some rest) \<and>
     (\<forall>rest. endObject_in S (endObject_out S @ rest) = Some rest) \<and>
     field_ok (uint32_field S) \<and> field_ok (uint64_field S) \<and> field_ok (bool_field S) \<and>
     field_ok (iv_field S) \<and> field_ok (public_key_field S) \<and>
     field_ok (secret_key_field S) \<and> field_ok (string_field S) \<and>
     field_ok (binary_field S)"

section \<open>Concrete inputs\<close>

text \<open>
  A wallet of the instance above, with the four keys given: creation time 1000 and a
  two-byte history. \<open>demo_blank\<close> is the object a caller passes to
  \<^verbatim>\<open>deserialize\<close>: zero keys, empty history.
\<close>

definition demo_wallet ::
  "PublicKey \<Rightarrow> SecretKey \<Rightarrow> PublicKey \<Rightarrow> SecretKey \<Rightarrow> bytes WalletLegacySerializer" where
  "demo_wallet spub ssec vpub vsec =
     \<lparr>account = \<lparr>m_keys = \<lparr>address = \<lparr>spendPublicKey = spub, viewPublicKey = vpub\<rparr>,
                             spendSecretKey = ssec, viewSecretKey = vsec\<rparr>,
                  m_creation_timestamp = 1000\<rparr>,
      transactionsCache = [9, 8]\<rparr>"

definition demo_blank :: "bytes WalletLegacySerializer" where
  "demo_blank =
     \<lparr>account = \<lparr>m_keys = \<lparr>address = \<lparr>spendPublicKey = 0, viewPublicKey = 0\<rparr>,
                             spendSecretKey = 0, viewSecretKey = 0\<rparr>,
                  m_creation_timestamp = 0\<rparr>,
      transactionsCache = []\<rparr>"

section \<open>The cipher: lemmas\<close>

lemma length_xor_stream: "length (xor_stream ks i bs) = length bs"
  by (induction bs arbitrary: i) simp_all

lemma xor_stream_twice: "xor_stream ks i (xor_stream ks i bs) = bs"
  by (induction bs arbitrary: i) (simp_all add: xor.assoc)

lemma length_resize: "length (resize n s) = n"
  by (simp add: resize_def)

lemma chacha8_full:
  "len = length data \<Longrightarrow> length buf = len \<Longrightarrow>
   chacha8 S data len key iv buf = xor_stream (chacha8_keystream S key iv) 0 data"
  by (simp add: chacha8_def)

lemma decrypt_after_encrypt:
  "decrypt S (snd (encrypt S rnd plain password c0)) p0 rnd password = plain"
  by (simp add: decrypt_def encrypt_def Let_def chacha8_full length_resize
      length_xor_stream xor_stream_twice)

lemma fst_encrypt: "fst (encrypt S rnd plain password c0) = rnd"
  by (simp add: encrypt_def Let_def)

text \<open>
  C8. Decrypting what \<^verbatim>\<open>encrypt\<close> produced, with the same password and the IV that
  \<^verbatim>\<open>encrypt\<close> returned, gives back the plaintext, whatever the two output strings
  held before the calls.
\<close>

theorem decrypt_encrypt:
  "decrypt S (snd (encrypt S rnd plain password c0)) p0
           (fst (encrypt S rnd plain password c0)) password = plain"
  by (simp only: fst_encrypt decrypt_after_encrypt)

text \<open>
  C9. The ciphertext that \<^verbatim>\<open>encrypt\<close> produces is as long as the plaintext, and the
  plaintext that \<^verbatim>\<open>decrypt\<close> produces is as long as the ciphertext.
\<close>

theorem cipher_length:
  "length (snd (encrypt S rnd plain password c0)) = length plain \<and>
   length (decrypt S cipher p0 iv password) = length cipher"
  by (simp add: decrypt_def encrypt_def Let_def chacha8_full length_resize
      length_xor_stream)

section \<open>Reading back what was written\<close>

lemma field_okD: "field_ok f \<Longrightarrow> parse f name (emit f name v @ rest) = Some (v, rest)"
  by (simp add: field_ok_def)

lemma field_okD_end: "field_ok f \<Longrightarrow> parse f name (emit f name v) = Some (v, [])"
  using field_okD [of f name v "[]"] by simp

lemma KeysStorage_in_out:
  assumes "serializer_ok S"
  shows "KeysStorage_serialize_in S name (KeysStorage_serialize_out S name keys @ rest)
         = Some (keys, rest)"
  using assms
  by (simp add: serializer_ok_def KeysStorage_serialize_in_def KeysStorage_serialize_out_def
      field_okD)

lemma loadKeys_saveKeys:
  assumes "serializer_ok S"
  shows "loadKeys S (saveKeys S w @ rest) a = (Returned rest, account w)"
  by (simp add: loadKeys_def saveKeys_def Let_def KeysStorage_in_out [OF assms]
      getAccountKeys_def setAccountKeys_def get_createtime_def set_createtime_def)

lemma readEnvelope_written:
  assumes "serializer_ok S"
  shows "readEnvelope S (beginObject_out S ''wallet''
                         @ emit (uint32_field S) ''version'' version
                         @ emit (iv_field S) ''iv'' iv
                         @ emit (string_field S) ''data'' cipher
                         @ endObject_out S)
         = Some (version, iv, cipher)"
proof -
  have e: "endObject_in S (endObject_out S) = Some []"
    using assms by (metis append_Nil2 serializer_ok_def)
  show ?thesis
    using assms
    by (simp add: serializer_ok_def readEnvelope_def field_okD e)
qed

lemma readEnvelope_serialize:
  assumes "serializer_ok S"
  shows "readEnvelope S (serialize S rnd w password d c)
         = Some (walletSerializationVersion, rnd,
                 snd (encrypt S rnd (plainArchive S w d c) password []))"
  by (simp add: serialize_def Let_def split_def fst_encrypt readEnvelope_written [OF assms])

lemma deserialize_serialize:
  assumes "serializer_ok S"
  shows "deserialize S (serialize S rnd w password d c) password w0 c0 =
     (case checkKeys S (account w) of
        Thrown e \<Rightarrow> (Thrown e, w0\<lparr>account := account w\<rparr>, c0)
      | Returned _ \<Rightarrow>
          (case readTail S walletSerializationVersion
                  (emit (bool_field S) ''has_details'' d
                   @ (if d then details_out S ''details'' (transactionsCache w) else [])
                   @ emit (binary_field S) ''cache'' c) (transactionsCache w0) c0 of
             (r, tc, c') \<Rightarrow> (r, \<lparr>account = account w, transactionsCache = tc\<rparr>, c')))"
proof -
  define t where "t = emit (bool_field S) ''has_details'' d
                   @ (if d then details_out S ''details'' (transactionsCache w) else [])
                   @ emit (binary_field S) ''cache'' c"
  have p: "plainArchive S w d c = saveKeys S w @ t"
    by (simp add: plainArchive_def t_def)
  have "deserialize S (serialize S rnd w password d c) password w0 c0 =
     (case checkKeys S (account w) of
        Thrown e \<Rightarrow> (Thrown e, w0\<lparr>account := account w\<rparr>, c0)
      | Returned _ \<Rightarrow>
          (case readTail S walletSerializationVersion t (transactionsCache w0) c0 of
             (r, tc, c') \<Rightarrow> (r, \<lparr>account = account w, transactionsCache = tc\<rparr>, c')))"
    unfolding deserialize_def readEnvelope_serialize [OF assms]
    by (simp add: decrypt_after_encrypt Let_def p loadKeys_saveKeys [OF assms])
  then show ?thesis
    unfolding t_def .
qed

lemma readTail_plain:
  assumes "serializer_ok S"
  shows "readTail S v (emit (bool_field S) ''has_details'' False @ emit (binary_field S) ''cache'' c) tc c0
         = (Returned (), tc, c)"
  using assms
  by (simp add: readTail_def readDetails_def serializer_ok_def field_okD field_okD_end)

section \<open>The instance meets the laws\<close>

lemma demo_le_value_le_bytes: "demo_le_value (demo_le_bytes k n) = n mod 256 ^ k"
proof (induction k arbitrary: n)
  case 0
  then show ?case by simp
next
  case (Suc k)
  have "unat (of_nat (n mod 256) :: byte) = n mod 256"
    by (simp add: unat_of_nat)
  then show ?case
    by (simp add: Suc mod_mult2_eq)
qed

lemma length_demo_le_bytes: "length (demo_le_bytes k n) = k"
  by (induction k arbitrary: n) simp_all

lemma demo_word_field_ok:
  assumes "LENGTH('a::len) \<le> 8 * k"
  shows "field_ok (demo_word_field k :: 'a word field)"
proof -
  have "unat v mod 256 ^ k = unat v" for v :: "'a word"
  proof -
    have "unat v < 2 ^ LENGTH('a)" by simp
    also have "(2::nat) ^ LENGTH('a) \<le> 2 ^ (8 * k)" using assms by simp
    also have "(2::nat) ^ (8 * k) = 256 ^ k" by (simp add: power_mult)
    finally show ?thesis by simp
  qed
  then show ?thesis
    by (simp add: field_ok_def demo_word_field_def length_demo_le_bytes demo_le_value_le_bytes)
qed

lemma demo_read_varint_varint: "demo_read_varint (demo_varint n @ rest) = Some (n, rest)"
proof (induction n rule: demo_varint.induct)
  case (1 n)
  show ?case
  proof (cases "n < 128")
    case True
    then show ?thesis
      by (subst demo_varint.simps) (simp add: unat_of_nat word_less_nat_alt)
  next
    case False
    have "(128 + n mod 128) mod 2 ^ LENGTH(8) = 128 + n mod 128"
      by simp
    then have b: "unat (of_nat (128 + n mod 128) :: byte) = 128 + n mod 128"
      by (simp only: unat_of_nat)
    have c: "\<not> (of_nat (128 + n mod 128) :: byte) < 128"
      by (simp add: word_less_nat_alt b del: of_nat_add)
    show ?thesis
      using False 1 b c
      by (subst demo_varint.simps) (simp del: of_nat_add demo_varint.simps)
  qed
qed

lemma demo_string_field_ok: "field_ok demo_string_field"
  by (simp add: field_ok_def demo_string_field_def demo_read_varint_varint del: demo_varint.simps)

lemma demo_bool_field_ok: "field_ok demo_bool_field"
  by (simp add: field_ok_def demo_bool_field_def)

lemma demo_serializer_ok: "serializer_ok demo"
  by (simp add: serializer_ok_def demo_def demo_word_field_ok demo_string_field_ok
      demo_bool_field_ok demo_beginObject_in_def)

section \<open>Steps of deserialize\<close>

lemma readTail_not_system_error: "fst (readTail S version s tc cache) \<noteq> Thrown (system_error c)"
  by (simp add: readTail_def split: option.splits prod.splits)

lemma readTail_keeps_cache:
  "readTail S version s tc cache = (Thrown e, tc', cache') \<Longrightarrow> cache' = cache"
  by (auto simp: readTail_def split: option.splits prod.splits)

lemma loadKeys_None:
  "KeysStorage_serialize_in S ''keys'' s = None \<Longrightarrow>
   loadKeys S s a = (Thrown (system_error WRONG_PASSWORD), a)"
  by (simp add: loadKeys_def)

lemma loadKeys_Some:
  "KeysStorage_serialize_in S ''keys'' s = Some (keys, s') \<Longrightarrow>
   loadKeys S s a =
     (Returned s',
      \<lparr>m_keys = \<lparr>address = \<lparr>spendPublicKey = ks_spendPublicKey keys,
                              viewPublicKey = ks_viewPublicKey keys\<rparr>,
                  spendSecretKey = ks_spendSecretKey keys,
                  viewSecretKey = ks_viewSecretKey keys\<rparr>,
       m_creation_timestamp = creationTimestamp keys\<rparr>)"
  by (cases a) (simp add: loadKeys_def Let_def set_createtime_def setAccountKeys_def)

lemma checkKeys_view_ok:
  assumes "secret_key_matches S (viewSecretKey (m_keys a)) (viewPublicKey (address (m_keys a)))"
  shows "checkKeys S a =
     (if (if spendSecretKey (m_keys a) = NULL_SECRET_KEY
          then \<not> check_key S (spendPublicKey (address (m_keys a)))
          else \<not> secret_key_matches S (spendSecretKey (m_keys a))
                   (spendPublicKey (address (m_keys a))))
      then Thrown (system_error WRONG_PASSWORD) else Returned ())"
  using assms by (simp add: checkKeys_def throwIfKeysMissmatch_def getAccountKeys_def)

lemma key_block_of_serialize:
  assumes "serializer_ok S"
  shows "KeysStorage_serialize_in S ''keys''
           (decrypt S (snd (encrypt S rnd (plainArchive S w False c) password [])) [] rnd password)
         = Some (\<lparr>creationTimestamp = m_creation_timestamp (account w),
                   ks_spendPublicKey = spendPublicKey (address (m_keys (account w))),
                   ks_spendSecretKey = spendSecretKey (m_keys (account w)),
                   ks_viewPublicKey = viewPublicKey (address (m_keys (account w))),
                   ks_viewSecretKey = viewSecretKey (m_keys (account w))\<rparr>,
                 emit (bool_field S) ''has_details'' False @ emit (binary_field S) ''cache'' c)"
  by (simp add: decrypt_after_encrypt plainArchive_def saveKeys_def Let_def
      KeysStorage_in_out [OF assms] getAccountKeys_def get_createtime_def)

lemma loadKeys_of_serialize:
  assumes "serializer_ok S"
  shows "loadKeys S (decrypt S (snd (encrypt S rnd (plainArchive S w True c) password []))
            [] rnd password) a
         = (Returned (emit (bool_field S) ''has_details'' True
                      @ details_out S ''details'' (transactionsCache w)
                      @ emit (binary_field S) ''cache'' c), account w)"
  by (simp add: decrypt_after_encrypt plainArchive_def loadKeys_saveKeys [OF assms])

section \<open>The instance, evaluated\<close>

lemma demo_checkKeys:
  "checkKeys demo \<lparr>m_keys = \<lparr>address = \<lparr>spendPublicKey = spub, viewPublicKey = vpub\<rparr>,
                             spendSecretKey = ssec, viewSecretKey = vsec\<rparr>,
                  m_creation_timestamp = t\<rparr> =
     (if vpub = 2 * vsec + 1 \<and> (if ssec \<noteq> 0 then spub = 2 * ssec + 1 else bit spub 0)
      then Returned () else Thrown (system_error WRONG_PASSWORD))"
  by (simp add: checkKeys_def throwIfKeysMissmatch_def getAccountKeys_def demo_def
      NULL_SECRET_KEY_def)

lemma demo_short_envelope:
  "readEnvelope demo [6, 1, 0, 0, 0, 5, 0, 0, 0, 0, 0, 0, 0, 0] = Some (1, 5, [])"
  by (simp add: readEnvelope_def demo_def demo_beginObject_in_def demo_word_field_def
      demo_string_field_def)

lemma demo_empty_key_block:
  "KeysStorage_serialize_in demo ''keys'' (decrypt demo [] [] 5 [1, 2]) = None"
  by (simp add: KeysStorage_serialize_in_def decrypt_def chacha8_def resize_def demo_def
      demo_beginObject_in_def)

lemma demo_wrong_tag: "readEnvelope demo [7, 1, 0, 0, 0] = None"
  by (simp add: readEnvelope_def demo_def demo_beginObject_in_def)

lemma demo_truncated: "fst (deserialize demo [6, 1] [1, 2] demo_blank [42]) = Thrown runtime_error"
  by (simp add: deserialize_def readEnvelope_def demo_def demo_beginObject_in_def
      demo_word_field_def)

lemma demo_legacy_on_current:
  "demo_deserializeLegacyV1 tc (emit demo_string_field ''details'' [9, 8] @
     emit demo_string_field ''cache'' [42]) = (tc, None)"
  by (simp add: demo_deserializeLegacyV1_def demo_string_field_def Let_def)

lemma demo_current_on_current:
  "demo_details_in tc (emit demo_string_field ''details'' [9, 8] @ r) = ([9, 8], Some r)"
  by (simp add: demo_details_in_def demo_string_field_def)

lemma demo_cache_read:
  "parse demo_string_field ''cache'' (emit demo_string_field ''cache'' [42]) = Some ([42], [])"
  by (simp add: demo_string_field_def)

section \<open>The claims about deserialize\<close>

text \<open>
  C1, as amended. With the detail flag false, an account whose keys pass the checks of
  \<^verbatim>\<open>deserialize\<close> itself, and a serializer whose readers give back what its writers
  wrote: reading the stream that \<^verbatim>\<open>serialize\<close> produced, with the same password,
  succeeds; the account holds the written keys and creation time, the transaction cache
  is not touched, and the cache string is the one written.
\<close>

theorem roundtrip_without_details:
  assumes "serializer_ok S" and "checkKeys S (account w) = Returned ()"
  shows "deserialize S (serialize S rnd w password False c) password w0 c0 =
         (Returned (), \<lparr>account = account w, transactionsCache = transactionsCache w0\<rparr>, c)"
  by (simp add: deserialize_serialize [OF assms(1)] assms(2) readTail_plain [OF assms(1)])

text \<open>
  Witness for C1 as amended: the instance, a wallet with matching key pairs.
\<close>

theorem roundtrip_without_details_witness:
  "deserialize demo (serialize demo 77 (demo_wallet 7 3 11 5) [1, 2] False [42, 43]) [1, 2]
     demo_blank [] =
   (Returned (), \<lparr>account = account (demo_wallet 7 3 11 5), transactionsCache = []\<rparr>, [42, 43])"
proof -
  have k: "checkKeys demo (account (demo_wallet 7 3 11 5)) = Returned ()"
    by (simp add: demo_wallet_def demo_checkKeys)
  show ?thesis
    using roundtrip_without_details [OF demo_serializer_ok k, where rnd = 77
        and password = "[1, 2]" and c = "[42, 43]" and ?w0.0 = demo_blank and ?c0.0 = "[]"]
    by (simp add: demo_blank_def)
qed

text \<open>
  Counterexample to C1 as stated: a wallet whose view public key (12) does not match its
  view secret key (5, which matches 11) is written without complaint, and reading the
  stream back with the same password throws \<^verbatim>\<open>WRONG_PASSWORD\<close>.
\<close>

theorem roundtrip_mismatched_keys_counterexample:
  "deserialize demo (serialize demo 77 (demo_wallet 7 3 12 5) [1, 2] False [42]) [1, 2]
     demo_blank [] =
   (Thrown (system_error WRONG_PASSWORD),
    \<lparr>account = account (demo_wallet 7 3 12 5), transactionsCache = []\<rparr>, [])"
  by (simp add: deserialize_serialize [OF demo_serializer_ok] demo_wallet_def demo_checkKeys
      demo_blank_def)

text \<open>
  C2, as amended. The account is left as it was when reading the envelope or decoding the
  key block fails. Once the key block is decoded, \<^verbatim>\<open>loadKeys\<close> has stored its keys
  and creation time in the account, before any check, and they stay there whatever the
  checks and the later reads do.
\<close>

theorem account_after_deserialize:
  "account (fst (snd (deserialize S stream password w cache))) =
     (case readEnvelope S stream of
        None \<Rightarrow> account w
      | Some (version, iv, cipher) \<Rightarrow>
          (case KeysStorage_serialize_in S ''keys'' (decrypt S cipher [] iv password) of
             None \<Rightarrow> account w
           | Some (keys, s) \<Rightarrow>
               \<lparr>m_keys = \<lparr>address = \<lparr>spendPublicKey = ks_spendPublicKey keys,
                                       viewPublicKey = ks_viewPublicKey keys\<rparr>,
                           spendSecretKey = ks_spendSecretKey keys,
                           viewSecretKey = ks_viewSecretKey keys\<rparr>,
                m_creation_timestamp = creationTimestamp keys\<rparr>))"
  by (simp add: deserialize_def Let_def loadKeys_None loadKeys_Some
      split: option.splits prod.splits result.splits)

text \<open>
  Counterexample to C2 as stated: the spend public key 8 does not match the spend secret
  key 3. The call throws \<^verbatim>\<open>WRONG_PASSWORD\<close>, and the caller's account is no longer
  what it was.
\<close>

theorem failed_deserialize_changes_account:
  "fst (deserialize demo (serialize demo 77 (demo_wallet 8 3 11 5) [1, 2] False [42])
          [1, 2] demo_blank []) = Thrown (system_error WRONG_PASSWORD) \<and>
   account (fst (snd (deserialize demo (serialize demo 77 (demo_wallet 8 3 11 5) [1, 2] False [42])
          [1, 2] demo_blank []))) \<noteq> account demo_blank"
  by (simp add: deserialize_serialize [OF demo_serializer_ok] demo_wallet_def demo_checkKeys
      demo_blank_def)

text \<open>
  C3. Under the version that \<^verbatim>\<open>serialize\<close> writes, a details block is decoded by
  \<^verbatim>\<open>deserializeLegacyV1\<close>, whatever the collaborators are. On the instance: a stream
  written with details carries version 1, its details, written in the current layout, go
  to the legacy decoder, the read fails and the history is lost.
\<close>

theorem fresh_file_read_as_legacy:
  "readDetails S walletSerializationVersion True tc s = deserializeLegacyV1 S tc s \<and>
   map_option fst (readEnvelope demo (serialize demo 5 (demo_wallet 7 3 11 5) [1] True [42])) = Some 1 \<and>
   deserialize demo (serialize demo 5 (demo_wallet 7 3 11 5) [1] True [42]) [1] demo_blank [] =
   (Thrown runtime_error,
    \<lparr>account = account (demo_wallet 7 3 11 5), transactionsCache = []\<rparr>, [])"
proof -
  have k: "checkKeys demo (account (demo_wallet 7 3 11 5)) = Returned ()"
    by (simp add: demo_wallet_def demo_checkKeys)
  have b: "parse (bool_field demo) ''has_details'' (emit (bool_field demo) ''has_details'' True @ r)
           = Some (True, r)" for r
    using demo_serializer_ok by (simp add: serializer_ok_def field_okD)
  have d: "details_out demo ''details'' (transactionsCache (demo_wallet 7 3 11 5))
              @ emit (binary_field demo) ''cache'' [42]
           = emit demo_string_field ''details'' [9, 8] @ emit demo_string_field ''cache'' [42]"
    by (simp add: demo_def demo_wallet_def)
  have l: "deserializeLegacyV1 demo = demo_deserializeLegacyV1"
    by (simp add: demo_def)
  have t: "readTail demo walletSerializationVersion
             (emit (bool_field demo) ''has_details'' True
              @ details_out demo ''details'' (transactionsCache (demo_wallet 7 3 11 5))
              @ emit (binary_field demo) ''cache'' [42]) [] []
           = (Thrown runtime_error, [], [])"
    unfolding readTail_def b d
    by (simp add: readDetails_def walletSerializationVersion_def l demo_legacy_on_current)
  have g: "readDetails S walletSerializationVersion True tc s = deserializeLegacyV1 S tc s"
    by (simp add: readDetails_def walletSerializationVersion_def)
  have v: "map_option fst
             (readEnvelope demo (serialize demo 5 (demo_wallet 7 3 11 5) [1] True [42])) = Some 1"
    by (simp add: readEnvelope_serialize [OF demo_serializer_ok] walletSerializationVersion_def)
  have r: "deserialize demo (serialize demo 5 (demo_wallet 7 3 11 5) [1] True [42]) [1]
             demo_blank [] =
           (Thrown runtime_error,
            \<lparr>account = account (demo_wallet 7 3 11 5), transactionsCache = []\<rparr>, [])"
    by (simp add: deserialize_serialize [OF demo_serializer_ok] k t demo_blank_def)
  show ?thesis
    using g v r by simp
qed

text \<open>
  C4, as amended. When the envelope is read, the key block is decoded and the view public
  key matches the view secret key: \<^verbatim>\<open>deserialize\<close> throws \<^verbatim>\<open>WRONG_PASSWORD\<close>
  exactly when the spend secret key is null and the spend public key is not a valid key,
  or the spend secret key is not null and the spend public key does not match it.
\<close>

theorem spend_key_check:
  assumes "readEnvelope S stream = Some (version, iv, cipher)"
    and "KeysStorage_serialize_in S ''keys'' (decrypt S cipher [] iv password) = Some (keys, s)"
    and "secret_key_matches S (ks_viewSecretKey keys) (ks_viewPublicKey keys)"
  shows "fst (deserialize S stream password w cache) = Thrown (system_error WRONG_PASSWORD) \<longleftrightarrow>
         (if ks_spendSecretKey keys = NULL_SECRET_KEY
          then \<not> check_key S (ks_spendPublicKey keys)
          else \<not> secret_key_matches S (ks_spendSecretKey keys) (ks_spendPublicKey keys))"
proof -
  obtain r tc c where t: "readTail S version s (transactionsCache w) cache = (r, tc, c)"
    by (cases "readTail S version s (transactionsCache w) cache")
  have "r \<noteq> Thrown (system_error WRONG_PASSWORD)"
    using readTail_not_system_error [of S version s "transactionsCache w" cache WRONG_PASSWORD]
    by (simp add: t)
  then show ?thesis
    using assms by (simp add: deserialize_def Let_def loadKeys_Some checkKeys_view_ok t)
qed

text \<open>
  Witness for C4 as amended: a watch-only wallet with the invalid spend public key 8 is
  rejected; a wallet with matching spend keys is not.
\<close>

theorem spend_key_check_witness:
  "fst (deserialize demo (serialize demo 77 (demo_wallet 8 0 11 5) [1, 2] False [42])
          [1, 2] demo_blank []) = Thrown (system_error WRONG_PASSWORD) \<and>
   fst (deserialize demo (serialize demo 77 (demo_wallet 7 3 11 5) [1, 2] False [42])
          [1, 2] demo_blank []) \<noteq> Thrown (system_error WRONG_PASSWORD)"
proof -
  have e: "readEnvelope demo (serialize demo 77 w [1, 2] False [42])
           = Some (walletSerializationVersion, 77,
                   snd (encrypt demo 77 (plainArchive demo w False [42]) [1, 2] []))" for w
    by (rule readEnvelope_serialize [OF demo_serializer_ok])
  have k: "KeysStorage_serialize_in demo ''keys''
             (decrypt demo (snd (encrypt demo 77
                (plainArchive demo (demo_wallet spub ssec 11 5) False [42]) [1, 2] [])) [] 77 [1, 2])
           = Some (\<lparr>creationTimestamp = 1000, ks_spendPublicKey = spub,
                     ks_spendSecretKey = ssec, ks_viewPublicKey = 11, ks_viewSecretKey = 5\<rparr>,
                   emit (bool_field demo) ''has_details'' False
                   @ emit (binary_field demo) ''cache'' [42])" for spub ssec
    using key_block_of_serialize [OF demo_serializer_ok, of 77 "demo_wallet spub ssec 11 5"]
    by (simp add: demo_wallet_def)
  have v: "secret_key_matches demo
             (ks_viewSecretKey \<lparr>creationTimestamp = 1000, ks_spendPublicKey = spub,
                     ks_spendSecretKey = ssec, ks_viewPublicKey = 11, ks_viewSecretKey = 5\<rparr>)
             (ks_viewPublicKey \<lparr>creationTimestamp = 1000, ks_spendPublicKey = spub,
                     ks_spendSecretKey = ssec, ks_viewPublicKey = 11, ks_viewSecretKey = 5\<rparr>)"
    for spub ssec
    by (simp add: demo_def)
  show ?thesis
    using spend_key_check [OF e k v, where w = demo_blank and cache = "[]"
        and spub1 = 8 and ssec1 = 0]
      spend_key_check [OF e k v, where w = demo_blank and cache = "[]"
        and spub1 = 7 and ssec1 = 3]
    by (simp add: NULL_SECRET_KEY_def) (simp add: demo_def)
qed

text \<open>
  Counterexample to C4 as stated: the decoded spend secret key is null and the decoded
  spend public key 9 is valid, yet the call throws \<^verbatim>\<open>WRONG_PASSWORD\<close>, because the
  view keys do not match.
\<close>

theorem view_mismatch_counterexample:
  "fst (deserialize demo (serialize demo 77 (demo_wallet 9 0 12 5) [1, 2] False [42])
          [1, 2] demo_blank []) = Thrown (system_error WRONG_PASSWORD) \<and>
   spendSecretKey (getAccountKeys (account (fst (snd
     (deserialize demo (serialize demo 77 (demo_wallet 9 0 12 5) [1, 2] False [42])
          [1, 2] demo_blank []))))) = NULL_SECRET_KEY \<and>
   check_key demo (spendPublicKey (address (getAccountKeys (account (fst (snd
     (deserialize demo (serialize demo 77 (demo_wallet 9 0 12 5) [1, 2] False [42])
          [1, 2] demo_blank [])))))))"
proof -
  have "check_key demo 9"
    by (simp add: demo_def)
  then show ?thesis
    by (simp add: deserialize_serialize [OF demo_serializer_ok] demo_wallet_def demo_checkKeys
        demo_blank_def getAccountKeys_def NULL_SECRET_KEY_def)
qed

text \<open>
  C5. When the envelope is read and decoding the key block from the decrypted bytes
  fails, \<^verbatim>\<open>deserialize\<close> throws \<^verbatim>\<open>WRONG_PASSWORD\<close>, and nothing else; account,
  transaction cache and cache string are as before.
\<close>

theorem key_block_failure_is_wrong_password:
  assumes "readEnvelope S stream = Some (version, iv, cipher)"
    and "KeysStorage_serialize_in S ''keys'' (decrypt S cipher [] iv password) = None"
  shows "deserialize S stream password w cache = (Thrown (system_error WRONG_PASSWORD), w, cache)"
  using assms by (simp add: deserialize_def loadKeys_None)

text \<open>
  Witness for C5: an envelope with an empty data string, so that the key block has nothing
  to read.
\<close>

theorem key_block_failure_is_wrong_password_witness:
  "deserialize demo [6, 1, 0, 0, 0, 5, 0, 0, 0, 0, 0, 0, 0, 0] [1, 2] demo_blank [42]
   = (Thrown (system_error WRONG_PASSWORD), demo_blank, [42])"
  using key_block_failure_is_wrong_password [OF demo_short_envelope demo_empty_key_block]
  by simp

text \<open>
  C6. When the details flag read from the payload is true, the details are decoded by
  \<^verbatim>\<open>deserializeLegacyV1\<close> if the version of the envelope is 1, and by the current
  reader for every other version; the outcome of the call is the outcome of that decoder
  followed by the read of the cache string.
\<close>

theorem version_selects_decoder:
  assumes "readEnvelope S stream = Some (version, iv, cipher)"
    and "loadKeys S (decrypt S cipher [] iv password) (account w) = (Returned s, a)"
    and "checkKeys S a = Returned ()"
    and "parse (bool_field S) ''has_details'' s = Some (True, s1)"
  shows "deserialize S stream password w cache =
     (case (if version = 1 then deserializeLegacyV1 S (transactionsCache w) s1
            else details_in S ''details'' (transactionsCache w) s1) of
        (tc, None) \<Rightarrow> (Thrown runtime_error, \<lparr>account = a, transactionsCache = tc\<rparr>, cache)
      | (tc, Some s2) \<Rightarrow>
          (case parse (binary_field S) ''cache'' s2 of
             None \<Rightarrow> (Thrown runtime_error, \<lparr>account = a, transactionsCache = tc\<rparr>, cache)
           | Some (c, s3) \<Rightarrow> (Returned (), \<lparr>account = a, transactionsCache = tc\<rparr>, c)))"
  using assms
  by (simp add: deserialize_def Let_def readTail_def readDetails_def
      split: prod.splits option.splits)

text \<open>
  Witness for C6, both branches: the stream that \<^verbatim>\<open>serialize\<close> writes has version
  1, and the legacy decoder fails on its details; the same payload in an envelope of
  version 2 is decoded by the current reader, and the history is back.
\<close>

theorem version_selects_decoder_witness:
  "deserialize demo (serialize demo 77 (demo_wallet 7 3 11 5) [1, 2] True [42]) [1, 2]
     demo_blank [] =
   (Thrown runtime_error,
    \<lparr>account = account (demo_wallet 7 3 11 5), transactionsCache = []\<rparr>, []) \<and>
   deserialize demo
     (beginObject_out demo ''wallet''
      @ emit (uint32_field demo) ''version'' 2
      @ emit (iv_field demo) ''iv'' 77
      @ emit (string_field demo) ''data''
          (snd (encrypt demo 77 (plainArchive demo (demo_wallet 7 3 11 5) True [42]) [1, 2] []))
      @ endObject_out demo) [1, 2] demo_blank [] =
   (Returned (),
    \<lparr>account = account (demo_wallet 7 3 11 5), transactionsCache = [9, 8]\<rparr>, [42])"
proof -
  have k: "checkKeys demo (account (demo_wallet 7 3 11 5)) = Returned ()"
    by (simp add: demo_wallet_def demo_checkKeys)
  have f: "parse (bool_field demo) ''has_details''
             (emit (bool_field demo) ''has_details'' True
              @ details_out demo ''details'' (transactionsCache (demo_wallet 7 3 11 5))
              @ emit (binary_field demo) ''cache'' [42])
           = Some (True, details_out demo ''details'' (transactionsCache (demo_wallet 7 3 11 5))
              @ emit (binary_field demo) ''cache'' [42])"
    using demo_serializer_ok by (simp add: serializer_ok_def field_okD)
  have d: "details_out demo ''details'' (transactionsCache (demo_wallet 7 3 11 5))
           = emit demo_string_field ''details'' [9, 8]"
    by (simp add: demo_def demo_wallet_def)
  have p: "deserializeLegacyV1 demo = demo_deserializeLegacyV1"
    "details_in demo ''details'' = demo_details_in"
    "binary_field demo = demo_string_field"
    by (simp_all add: demo_def)
  have e1: "readEnvelope demo (serialize demo 77 (demo_wallet 7 3 11 5) [1, 2] True [42])
            = Some (walletSerializationVersion, 77,
                snd (encrypt demo 77 (plainArchive demo (demo_wallet 7 3 11 5) True [42]) [1, 2] []))"
    by (rule readEnvelope_serialize [OF demo_serializer_ok])
  have e2: "readEnvelope demo
     (beginObject_out demo ''wallet''
      @ emit (uint32_field demo) ''version'' 2
      @ emit (iv_field demo) ''iv'' 77
      @ emit (string_field demo) ''data''
          (snd (encrypt demo 77 (plainArchive demo (demo_wallet 7 3 11 5) True [42]) [1, 2] []))
      @ endObject_out demo)
            = Some (2, 77,
                snd (encrypt demo 77 (plainArchive demo (demo_wallet 7 3 11 5) True [42]) [1, 2] []))"
    by (rule readEnvelope_written [OF demo_serializer_ok])
  have l: "loadKeys demo
             (decrypt demo
                (snd (encrypt demo 77 (plainArchive demo (demo_wallet 7 3 11 5) True [42]) [1, 2] []))
                [] 77 [1, 2]) (account demo_blank)
           = (Returned (emit (bool_field demo) ''has_details'' True
                        @ details_out demo ''details'' (transactionsCache (demo_wallet 7 3 11 5))
                        @ emit (binary_field demo) ''cache'' [42]),
              account (demo_wallet 7 3 11 5))"
    by (rule loadKeys_of_serialize [OF demo_serializer_ok])
  have one: "deserialize demo (serialize demo 77 (demo_wallet 7 3 11 5) [1, 2] True [42]) [1, 2]
     demo_blank [] =
   (Thrown runtime_error,
    \<lparr>account = account (demo_wallet 7 3 11 5), transactionsCache = []\<rparr>, [])"
    using version_selects_decoder [OF e1 l k f, where cache = "[]"]
    by (simp add: walletSerializationVersion_def d p demo_legacy_on_current demo_blank_def)
  have two: "deserialize demo
     (beginObject_out demo ''wallet''
      @ emit (uint32_field demo) ''version'' 2
      @ emit (iv_field demo) ''iv'' 77
      @ emit (string_field demo) ''data''
          (snd (encrypt demo 77 (plainArchive demo (demo_wallet 7 3 11 5) True [42]) [1, 2] []))
      @ endObject_out demo) [1, 2] demo_blank [] =
   (Returned (),
    \<lparr>account = account (demo_wallet 7 3 11 5), transactionsCache = [9, 8]\<rparr>, [42])"
    using version_selects_decoder [OF e2 l k f, where cache = "[]"]
    by (simp add: d p demo_current_on_current demo_cache_read)
  show ?thesis
    using one two by simp
qed

text \<open>
  C7, as amended. When the envelope cannot be read, \<^verbatim>\<open>deserialize\<close> throws the
  \<^verbatim>\<open>std::runtime_error\<close> of the serializer, unchanged: it carries no error code, it
  is not \<^verbatim>\<open>WRONG_PASSWORD\<close>, and it does not depend on the password. Account,
  transaction cache and cache string are as before.
\<close>

theorem envelope_failure_is_runtime_error:
  assumes "readEnvelope S stream = None"
  shows "deserialize S stream password w cache = (Thrown runtime_error, w, cache) \<and>
         fst (deserialize S stream password w cache) \<noteq> Thrown (system_error WRONG_PASSWORD)"
  using assms by (simp add: deserialize_def)

text \<open>
  Witness for C7 as amended: a stream that starts with the wrong object marker.
\<close>

theorem envelope_failure_is_runtime_error_witness:
  "deserialize demo [7, 1, 0, 0, 0] [1, 2] demo_blank [42] = (Thrown runtime_error, demo_blank, [42]) \<and>
   fst (deserialize demo [7, 1, 0, 0, 0] [1, 2] demo_blank [42]) \<noteq> Thrown (system_error WRONG_PASSWORD)"
  using envelope_failure_is_runtime_error [OF demo_wrong_tag] by simp

text \<open>
  Counterexample to C7 as stated: on the empty stream the call throws a plain
  \<^verbatim>\<open>std::runtime_error\<close>, not an error with a code of its own.
\<close>

theorem envelope_failure_counterexample:
  "deserialize demo [] [1, 2] demo_blank [] = (Thrown runtime_error, demo_blank, [])"
  by (simp add: deserialize_def readEnvelope_def demo_def demo_beginObject_in_def)

text \<open>
  C10. Whenever \<^verbatim>\<open>deserialize\<close> throws, the cache string of the caller is what it
  was before the call.
\<close>

theorem failure_keeps_cache:
  assumes "fst (deserialize S stream password w cache) = Thrown e"
  shows "snd (snd (deserialize S stream password w cache)) = cache"
  using assms
  by (auto simp: deserialize_def Let_def split: option.splits prod.splits result.splits
      dest: readTail_keeps_cache)

text \<open>
  Witness for C10: a stream cut off inside the version field.
\<close>

theorem failure_keeps_cache_witness:
  "fst (deserialize demo [6, 1] [1, 2] demo_blank [42]) = Thrown runtime_error \<and>
   snd (snd (deserialize demo [6, 1] [1, 2] demo_blank [42])) = [42]"
  using failure_keeps_cache [OF demo_truncated] demo_truncated by simp

end
